theory Spec2Isabelle
  imports Main "HOL-Library.Word"
begin

unbundle bit_operations_syntax

section \<open>The DPDK packet capture library (libdpdk_capture.c, dpdk_capture.h)\<close>

text \<open>
  The library keeps three process-wide globals (\<open>mbuf_pool\<close>, \<open>g_port_id\<close>,
  \<open>g_batch_size\<close>) and talks to the network card only through calls of the DPDK
  runtime. The globals are a record that every operation takes and returns; the DPDK
  runtime, which is no code of the library, is a record of answers (one field per DPDK
  function the library calls); and every call of the runtime is appended to a trace, so
  that "no hardware access" is something a theorem can say.

  A C \<open>int\<close> is an \<open>int\<close> here: the library does no arithmetic on its \<open>int\<close>s that
  could overflow, and each conversion to an unsigned type is written out with
  \<open>word_of_int\<close>, which reduces modulo the width as C does. Only the capture data path,
  initialisation, statistics and clean-up are modelled; \<open>printf\<close> output and the signal
  handler (which only sets a flag that the library never reads) are left out.
\<close>

subsection \<open>Data\<close>

type_synonym u8 = "8 word"
type_synonym u16 = "16 word"
type_synonym u32 = "32 word"
type_synonym u64 = "64 word"

text \<open>Pointers: an address; \<open>None\<close> is the null pointer where a pointer may be null.\<close>

type_synonym addr = nat
type_synonym mempool = nat

definition MAX_PKT_BURST :: int where
  "MAX_PKT_BURST = 32"

text \<open>
  \<open>struct packet\<close> of dpdk_capture.h. Record selectors are global constants, so the
  fields \<open>data\<close>, \<open>length\<close>, \<open>port\<close> and \<open>timestamp\<close> carry the prefix \<open>pkt_\<close>.
\<close>

record packet =
  pkt_data :: addr
  pkt_length :: u16
  pkt_port :: u8
  pkt_timestamp :: u32

text \<open>
  What the library reads of a \<open>struct rte_mbuf\<close>: the address \<open>rte_pktmbuf_mtod\<close>
  yields and the length \<open>rte_pktmbuf_data_len\<close> yields.
\<close>

record rte_mbuf =
  mtod :: addr
  data_len :: u16

record rte_eth_stats =
  ipackets :: u64
  opackets :: u64
  ibytes :: u64
  obytes :: u64

record rte_eth_txconf =
  txconf_offloads :: u64
  txconf_other :: nat

record rte_eth_dev_info =
  tx_offload_capa :: u64
  default_txconf :: rte_eth_txconf

record rte_eth_conf =
  rxmode_max_lro_pkt_size :: u32
  txmode_offloads :: u64

text \<open>Constants of the DPDK headers that the library uses.\<close>

definition RTE_ETHER_MAX_LEN :: u32 where
  "RTE_ETHER_MAX_LEN = 1518"

definition RTE_ETH_TX_OFFLOAD_MBUF_FAST_FREE :: u64 where
  "RTE_ETH_TX_OFFLOAD_MBUF_FAST_FREE = push_bit 16 1"

definition RTE_MBUF_DEFAULT_BUF_SIZE :: nat where
  "RTE_MBUF_DEFAULT_BUF_SIZE = 2048 + 128"

definition port_conf_default :: rte_eth_conf where
  "port_conf_default = \<lparr>rxmode_max_lro_pkt_size = RTE_ETHER_MAX_LEN, txmode_offloads = 0\<rparr>"

subsection \<open>The DPDK runtime\<close>

text \<open>
  One field per DPDK function the library calls, giving what the call returns for its
  arguments. \<open>rte_eth_rx_burst\<close> returns the mbufs it stored into the caller's array, in
  order; their number is the C function's return value. \<open>rte_socket_id\<close> is given as
  the \<open>int socket_id\<close> that \<open>rte_pktmbuf_pool_create\<close> receives.
\<close>

record dpdk =
  rte_eal_init :: "string list \<Rightarrow> int"
  rte_eth_dev_count_avail :: u32
  rte_socket_id :: int
  rte_pktmbuf_pool_create :: "string \<Rightarrow> nat \<Rightarrow> nat \<Rightarrow> nat \<Rightarrow> nat \<Rightarrow> int \<Rightarrow> mempool option"
  rte_eth_dev_is_valid_port :: "u16 \<Rightarrow> bool"
  rte_eth_dev_info_get :: "u16 \<Rightarrow> int \<times> rte_eth_dev_info"
  rte_eth_dev_configure :: "u16 \<Rightarrow> u16 \<Rightarrow> u16 \<Rightarrow> rte_eth_conf \<Rightarrow> int"
  rte_eth_dev_adjust_nb_rx_tx_desc :: "u16 \<Rightarrow> u16 \<Rightarrow> u16 \<Rightarrow> int \<times> u16 \<times> u16"
  rte_eth_dev_socket_id :: "u16 \<Rightarrow> int"
  rte_eth_rx_queue_setup :: "u16 \<Rightarrow> u16 \<Rightarrow> u16 \<Rightarrow> u32 \<Rightarrow> mempool option \<Rightarrow> int"
  rte_eth_tx_queue_setup :: "u16 \<Rightarrow> u16 \<Rightarrow> u16 \<Rightarrow> u32 \<Rightarrow> rte_eth_txconf \<Rightarrow> int"
  rte_eth_dev_start :: "u16 \<Rightarrow> int"
  rte_eth_macaddr_get :: "u16 \<Rightarrow> int"
  rte_eth_promiscuous_enable :: "u16 \<Rightarrow> int"
  rte_eth_rx_burst :: "u16 \<Rightarrow> u16 \<Rightarrow> u16 \<Rightarrow> rte_mbuf list"
  rte_get_tsc_cycles :: u64
  rte_get_tsc_hz :: u64
  rte_eth_stats_get :: "u16 \<Rightarrow> int \<times> rte_eth_stats"

text \<open>The calls of the runtime, with the arguments the library passes.\<close>

datatype call =
    EalInit "string list"
  | DevCountAvail
  | EalCleanup
  | PoolCreate string nat nat nat nat int
  | IsValidPort u16
  | DevInfoGet u16
  | DevConfigure u16 u16 u16 rte_eth_conf
  | AdjustNbRxTxDesc u16 u16 u16
  | DevSocketId u16
  | RxQueueSetup u16 u16 u16 u32 "mempool option"
  | TxQueueSetup u16 u16 u16 u32 rte_eth_txconf
  | DevStart u16
  | MacaddrGet u16
  | PromiscuousEnable u16
  | RxBurst u16 u16 u16
  | TscCycles
  | TscHz
  | PktmbufFree rte_mbuf
  | StatsGet u16
  | DevStop u16
  | DevClose u16

text \<open>Telling the queue set-up calls from the others, to count them in a trace.\<close>

fun is_rx_queue_setup :: "call \<Rightarrow> bool" where
  "is_rx_queue_setup (RxQueueSetup port q nb_desc socket pool) = True"
| "is_rx_queue_setup c = False"

fun is_tx_queue_setup :: "call \<Rightarrow> bool" where
  "is_tx_queue_setup (TxQueueSetup port q nb_desc socket txconf) = True"
| "is_tx_queue_setup c = False"

subsection \<open>The globals\<close>

record session =
  mbuf_pool :: "mempool option"
  g_port_id :: int
  g_batch_size :: int
  trace :: "call list"

text \<open>The static initialisers: no pool, port 0, batch size \<open>MAX_PKT_BURST\<close>.\<close>

definition initial_session :: session where
  "initial_session =
     \<lparr>mbuf_pool = None, g_port_id = 0, g_batch_size = MAX_PKT_BURST, trace = []\<rparr>"

text \<open>Recording calls of the runtime, in the order they are made.\<close>

definition log :: "call list \<Rightarrow> session \<Rightarrow> session" where
  "log cs s = s\<lparr>trace := trace s @ cs\<rparr>"

text \<open>
  What C leaves undefined is a fault of the model: an index beyond the 32 slots of
  \<open>bufs\<close>, a read of a slot the burst receive did not fill, a write beyond the
  caller's \<open>packets\<close> array, a division by a zero frequency.
\<close>

datatype fault = BufsOutOfBounds | BufsUninitialised | PacketsOutOfBounds | DivisionByZero

subsection \<open>dpdk\_capture\_packets\<close>

text \<open>
  The first loop of \<open>dpdk_capture_packets\<close>: for \<open>i < nb_rx\<close>, read \<open>bufs[i]\<close> and
  fill \<open>packets[i]\<close>. \<open>i\<close> stays below \<open>nb_rx \<le> 65535\<close>, so \<open>i++\<close> does not
  overflow.
\<close>

function process_loop ::
  "rte_mbuf option list \<Rightarrow> int \<Rightarrow> u32 \<Rightarrow> nat \<Rightarrow> nat \<Rightarrow> packet list \<Rightarrow> fault + packet list"
where
  "process_loop bufs gport timestamp nb_rx i packets =
     (if i < nb_rx then
        (if length bufs \<le> i then Inl BufsOutOfBounds
         else (case bufs ! i of
                 None \<Rightarrow> Inl BufsUninitialised
               | Some mbuf \<Rightarrow>
                   (if length packets \<le> i then Inl PacketsOutOfBounds
                    else process_loop bufs gport timestamp nb_rx (Suc i)
                           (packets[i := \<lparr>pkt_data = mtod mbuf,
                                          pkt_length = data_len mbuf,
                                          pkt_port = word_of_int gport,
                                          pkt_timestamp = timestamp\<rparr>]))))
      else Inr packets)"
  by pat_completeness auto
termination
  by (relation "measure (\<lambda>(bufs, gport, timestamp, nb_rx, i, packets). nb_rx - i)") auto

declare process_loop.simps [simp del]

text \<open>The second loop: for \<open>i < nb_rx\<close>, \<open>rte_pktmbuf_free(bufs[i])\<close>.\<close>

function free_loop :: "rte_mbuf option list \<Rightarrow> nat \<Rightarrow> nat \<Rightarrow> fault + call list" where
  "free_loop bufs nb_rx i =
     (if i < nb_rx then
        (if length bufs \<le> i then Inl BufsOutOfBounds
         else (case bufs ! i of
                 None \<Rightarrow> Inl BufsUninitialised
               | Some mbuf \<Rightarrow>
                   (case free_loop bufs nb_rx (Suc i) of
                      Inl f \<Rightarrow> Inl f
                    | Inr cs \<Rightarrow> Inr (PktmbufFree mbuf # cs))))
      else Inr [])"
  by pat_completeness auto
termination
  by (relation "measure (\<lambda>(bufs, nb_rx, i). nb_rx - i)") auto

declare free_loop.simps [simp del]

text \<open>The local \<open>capture_count\<close>: \<open>max_packets\<close> limited to the batch size.\<close>

definition capture_count :: "session \<Rightarrow> int \<Rightarrow> int" where
  "capture_count s max_packets =
     (if max_packets < g_batch_size s then max_packets else g_batch_size s)"

text \<open>
  \<open>packets\<close> is \<open>None\<close> for a null pointer and \<open>Some ps\<close> for an array holding \<open>ps\<close>;
  the result gives the returned \<open>int\<close>, the array afterwards and the globals
  afterwards. The local array \<open>bufs\<close> has \<open>MAX_PKT_BURST\<close> slots, uninitialised
  (\<open>None\<close>) until the burst receive fills the first \<open>nb_rx\<close>; a burst receive that
  stores more than the array holds has already written out of bounds.
\<close>

definition dpdk_capture_packets ::
  "dpdk \<Rightarrow> packet list option \<Rightarrow> int \<Rightarrow> session \<Rightarrow> fault + (int \<times> packet list option \<times> session)"
where
  "dpdk_capture_packets d packets max_packets s =
     (case packets of
        None \<Rightarrow> Inr (-1, packets, s)
      | Some ps \<Rightarrow>
          if max_packets \<le> 0 then Inr (-1, packets, s)
          else
            let port = (word_of_int (g_port_id s) :: u16);
                nb_pkts = (word_of_int (capture_count s max_packets) :: u16);
                rx = rte_eth_rx_burst d port 0 nb_pkts;
                s1 = log [RxBurst port 0 nb_pkts] s
            in
              if nat MAX_PKT_BURST < length rx then Inl BufsOutOfBounds
              else
                let bufs = map Some rx @ replicate (nat MAX_PKT_BURST - length rx) None;
                    nb_rx = (word_of_nat (length rx) :: u16)
                in
                  if nb_rx = 0 then Inr (0, packets, s1)
                  else if rte_get_tsc_hz d = 0 then Inl DivisionByZero
                  else
                    let timestamp = (ucast (rte_get_tsc_cycles d div rte_get_tsc_hz d) :: u32);
                        s2 = log [TscCycles, TscHz] s1
                    in
                      (case process_loop bufs (g_port_id s) timestamp (unat nb_rx) 0 ps of
                         Inl f \<Rightarrow> Inl f
                       | Inr ps' \<Rightarrow>
                           (case free_loop bufs (unat nb_rx) 0 of
                              Inl f \<Rightarrow> Inl f
                            | Inr frees \<Rightarrow>
                                Inr (uint nb_rx, Some ps', log frees s2))))"

subsection \<open>port\_init\<close>

text \<open>
  The two queue set-up loops of \<open>port_init\<close>, for \<open>q < rx_rings\<close> and \<open>q < tx_rings\<close>.
  The result is \<open>Some retval\<close> when the loop leaves \<open>port_init\<close> through its
  \<open>return retval\<close>, \<open>None\<close> when it runs to its end, with the calls made.
  \<open>q\<close> stays below the ring count, so \<open>q++\<close> does not wrap.
  \<open>rte_eth_dev_socket_id\<close> returns an \<open>int\<close> and the set-up calls take an
  \<open>unsigned int socket_id\<close>: the argument is converted, so that -1 is passed as
  4294967295.
\<close>

function rx_queue_loop ::
  "dpdk \<Rightarrow> u16 \<Rightarrow> mempool option \<Rightarrow> u16 \<Rightarrow> nat \<Rightarrow> nat \<Rightarrow> int option \<times> call list"
where
  "rx_queue_loop d port pool nb_rxd rx_rings q =
     (if q < rx_rings then
        (let socket = (word_of_int (rte_eth_dev_socket_id d port) :: u32);
             retval = rte_eth_rx_queue_setup d port (of_nat q) nb_rxd socket pool;
             cs = [DevSocketId port, RxQueueSetup port (of_nat q) nb_rxd socket pool]
         in if retval < 0 then (Some retval, cs)
            else (case rx_queue_loop d port pool nb_rxd rx_rings (Suc q) of
                    (r, cs') \<Rightarrow> (r, cs @ cs')))
      else (None, []))"
  by pat_completeness auto
termination
  by (relation "measure (\<lambda>(d, port, pool, nb_rxd, rx_rings, q). rx_rings - q)") auto

declare rx_queue_loop.simps [simp del]

function tx_queue_loop ::
  "dpdk \<Rightarrow> u16 \<Rightarrow> rte_eth_txconf \<Rightarrow> u16 \<Rightarrow> nat \<Rightarrow> nat \<Rightarrow> int option \<times> call list"
where
  "tx_queue_loop d port txconf nb_txd tx_rings q =
     (if q < tx_rings then
        (let socket = (word_of_int (rte_eth_dev_socket_id d port) :: u32);
             retval = rte_eth_tx_queue_setup d port (of_nat q) nb_txd socket txconf;
             cs = [DevSocketId port, TxQueueSetup port (of_nat q) nb_txd socket txconf]
         in if retval < 0 then (Some retval, cs)
            else (case tx_queue_loop d port txconf nb_txd tx_rings (Suc q) of
                    (r, cs') \<Rightarrow> (r, cs @ cs')))
      else (None, []))"
  by pat_completeness auto
termination
  by (relation "measure (\<lambda>(d, port, txconf, nb_txd, tx_rings, q). tx_rings - q)") auto

declare tx_queue_loop.simps [simp del]

text \<open>\<open>port_init\<close> returns its \<open>int\<close> and the calls it made, in order.\<close>

definition port_init :: "dpdk \<Rightarrow> u16 \<Rightarrow> mempool option \<Rightarrow> int \<times> call list" where
  "port_init d port pool =
     (let rx_rings = (1::nat); tx_rings = (1::nat);
          nb_rxd0 = (1024::u16); nb_txd0 = (1024::u16);
          t0 = [IsValidPort port]
      in
        if \<not> rte_eth_dev_is_valid_port d port then (-1, t0)
        else
          let (retval1, dev_info) = rte_eth_dev_info_get d port;
              t1 = t0 @ [DevInfoGet port]
          in
            if retval1 \<noteq> 0 then (retval1, t1)
            else
              let port_conf =
                    (if tx_offload_capa dev_info AND RTE_ETH_TX_OFFLOAD_MBUF_FAST_FREE \<noteq> 0
                     then port_conf_default
                            \<lparr>txmode_offloads := txmode_offloads port_conf_default
                                                  OR RTE_ETH_TX_OFFLOAD_MBUF_FAST_FREE\<rparr>
                     else port_conf_default);
                  retval2 = rte_eth_dev_configure d port (of_nat rx_rings) (of_nat tx_rings) port_conf;
                  t2 = t1 @ [DevConfigure port (of_nat rx_rings) (of_nat tx_rings) port_conf]
              in
                if retval2 \<noteq> 0 then (retval2, t2)
                else
                  let (retval3, nb_rxd, nb_txd) =
                        rte_eth_dev_adjust_nb_rx_tx_desc d port nb_rxd0 nb_txd0;
                      t3 = t2 @ [AdjustNbRxTxDesc port nb_rxd0 nb_txd0]
                  in
                    if retval3 \<noteq> 0 then (retval3, t3)
                    else
                      (case rx_queue_loop d port pool nb_rxd rx_rings 0 of
                         (Some retval4, cs4) \<Rightarrow> (retval4, t3 @ cs4)
                       | (None, cs4) \<Rightarrow>
                           let t4 = t3 @ cs4;
                               txconf = (default_txconf dev_info)
                                          \<lparr>txconf_offloads := txmode_offloads port_conf\<rparr>
                           in
                             (case tx_queue_loop d port txconf nb_txd tx_rings 0 of
                                (Some retval5, cs5) \<Rightarrow> (retval5, t4 @ cs5)
                              | (None, cs5) \<Rightarrow>
                                  let retval6 = rte_eth_dev_start d port;
                                      t6 = t4 @ cs5 @ [DevStart port]
                                  in
                                    if retval6 < 0 then (retval6, t6)
                                    else
                                      let retval7 = rte_eth_macaddr_get d port;
                                          t7 = t6 @ [MacaddrGet port]
                                      in
                                        if retval7 \<noteq> 0 then (retval7, t7)
                                        else
                                          let retval8 = rte_eth_promiscuous_enable d port;
                                              t8 = t7 @ [PromiscuousEnable port]
                                          in
                                            if retval8 \<noteq> 0 then (retval8, t8)
                                            else (0, t8))))"

subsection \<open>dpdk\_init\<close>

text \<open>
  \<open>snprintf\<close> into the 64-byte \<open>core_arg\<close> keeps at most 63 characters of \<open>cores\<close>.
  In \<open>port >= nb_ports\<close> the \<open>int\<close> is converted to \<open>unsigned\<close>, so a negative
  \<open>port\<close> compares as a large number.
\<close>

definition dpdk_init :: "dpdk \<Rightarrow> int \<Rightarrow> string \<Rightarrow> int \<Rightarrow> session \<Rightarrow> int \<times> session" where
  "dpdk_init d port cores batch_size s =
     (let core_arg = take 63 cores;
          argv = [''dpdk_capture'', ''-l'', core_arg, ''--''];
          ret = rte_eal_init d argv;
          s1 = log [EalInit argv] s
      in
        if ret < 0 then (-1, s1)
        else
          let nb_ports = rte_eth_dev_count_avail d;
              s2 = log [DevCountAvail] s1
          in
            if nb_ports = 0 then (-2, log [EalCleanup] s2)
            else if nb_ports \<le> (word_of_int port :: u32) then (-3, log [EalCleanup] s2)
            else
              let s3 = s2\<lparr>g_port_id := port,
                          g_batch_size :=
                            (if 0 < batch_size \<and> batch_size \<le> MAX_PKT_BURST
                             then batch_size else MAX_PKT_BURST)\<rparr>;
                  pool = rte_pktmbuf_pool_create d ''MBUF_POOL'' 8192 250 0
                           RTE_MBUF_DEFAULT_BUF_SIZE (rte_socket_id d);
                  s4 = log [PoolCreate ''MBUF_POOL'' 8192 250 0
                              RTE_MBUF_DEFAULT_BUF_SIZE (rte_socket_id d)]
                         (s3\<lparr>mbuf_pool := pool\<rparr>)
              in
                if mbuf_pool s4 = None then (-4, log [EalCleanup] s4)
                else
                  let (r, cs) = port_init d (word_of_int (g_port_id s4)) (mbuf_pool s4);
                      s5 = log cs s4
                  in
                    if r \<noteq> 0 then (-5, log [EalCleanup] s5)
                    else (0, s5))"

subsection \<open>dpdk\_get\_stats\<close>

text \<open>
  An output parameter is \<open>None\<close> for a null pointer and \<open>Some v\<close> for a cell holding
  \<open>v\<close>; \<open>if (p) *p = v\<close> stores through the non-null ones only.
\<close>

definition store :: "'a option \<Rightarrow> 'a \<Rightarrow> 'a option" where
  "store p v = (case p of None \<Rightarrow> None | Some old \<Rightarrow> Some v)"

definition dpdk_get_stats ::
  "dpdk \<Rightarrow> int \<Rightarrow> u64 option \<Rightarrow> u64 option \<Rightarrow> u64 option \<Rightarrow> u64 option \<Rightarrow> session
     \<Rightarrow> int \<times> (u64 option \<times> u64 option \<times> u64 option \<times> u64 option) \<times> session"
where
  "dpdk_get_stats d port rx_packets tx_packets rx_bytes tx_bytes s =
     (if port \<noteq> g_port_id s then (-1, (rx_packets, tx_packets, rx_bytes, tx_bytes), s)
      else
        let (ret, stats) = rte_eth_stats_get d (word_of_int port);
            s1 = log [StatsGet (word_of_int port)] s
        in
          if ret \<noteq> 0 then (ret, (rx_packets, tx_packets, rx_bytes, tx_bytes), s1)
          else (0, (store rx_packets (ipackets stats), store tx_packets (opackets stats),
                    store rx_bytes (ibytes stats), store tx_bytes (obytes stats)), s1))"

subsection \<open>dpdk\_cleanup\<close>

definition dpdk_cleanup :: "dpdk \<Rightarrow> session \<Rightarrow> session" where
  "dpdk_cleanup d s =
     (let port = (word_of_int (g_port_id s) :: u16);
          s1 = log [IsValidPort port] s;
          s2 = (if rte_eth_dev_is_valid_port d port
                then log [DevStop port, DevClose port] s1 else s1)
      in log [EalCleanup] s2)"

subsection \<open>A runtime to run the library on\<close>

text \<open>
  A runtime with one port (port 0) on which every call succeeds, the descriptor counts
  are accepted as requested, and the receive queue holds the frames \<open>frames\<close>: a burst
  receive for \<open>n\<close> packets delivers the first \<open>n\<close> of them.
\<close>

definition nic :: "rte_mbuf list \<Rightarrow> dpdk" where
  "nic frames =
     \<lparr>rte_eal_init = (\<lambda>argv. 0),
      rte_eth_dev_count_avail = 1,
      rte_socket_id = 0,
      rte_pktmbuf_pool_create = (\<lambda>name n cache priv room socket. Some 1),
      rte_eth_dev_is_valid_port = (\<lambda>port. port = 0),
      rte_eth_dev_info_get =
        (\<lambda>port. (0, \<lparr>tx_offload_capa = 0,
                      default_txconf = \<lparr>txconf_offloads = 0, txconf_other = 0\<rparr>\<rparr>)),
      rte_eth_dev_configure = (\<lambda>port rxq txq conf. 0),
      rte_eth_dev_adjust_nb_rx_tx_desc = (\<lambda>port rxd txd. (0, rxd, txd)),
      rte_eth_dev_socket_id = (\<lambda>port. 0),
      rte_eth_rx_queue_setup = (\<lambda>port q n socket pool. 0),
      rte_eth_tx_queue_setup = (\<lambda>port q n socket conf. 0),
      rte_eth_dev_start = (\<lambda>port. 0),
      rte_eth_macaddr_get = (\<lambda>port. 0),
      rte_eth_promiscuous_enable = (\<lambda>port. 0),
      rte_eth_rx_burst = (\<lambda>port q n. take (unat n) frames),
      rte_get_tsc_cycles = 7500,
      rte_get_tsc_hz = 1000,
      rte_eth_stats_get =
        (\<lambda>port. (0, \<lparr>ipackets = 3, opackets = 0, ibytes = 180, obytes = 0\<rparr>))\<rparr>"

definition frame :: "nat \<Rightarrow> rte_mbuf" where
  "frame a = \<lparr>mtod = a, data_len = 60\<rparr>"

definition blank :: packet where
  "blank = \<lparr>pkt_data = 0, pkt_length = 0, pkt_port = 0, pkt_timestamp = 0\<rparr>"

text \<open>
  The contract of \<open>rte_eth_rx_burst\<close> in DPDK: it delivers at most the \<open>nb_pkts\<close>
  packets it was asked for.
\<close>

definition rx_burst_contract :: "dpdk \<Rightarrow> bool" where
  "rx_burst_contract d = (\<forall>port q n. length (rte_eth_rx_burst d port q n) \<le> unat n)"

subsection \<open>Sessions the library can be in\<close>

text \<open>
  The states of the globals that calls of the library's four functions lead to, from
  the static initialisers, with any runtime behind each call.
\<close>

inductive reachable :: "session \<Rightarrow> bool" where
  initial: "reachable initial_session"
| init: "reachable s \<Longrightarrow> reachable (snd (dpdk_init d port cores batch_size s))"
| capture:
    "reachable s \<Longrightarrow> dpdk_capture_packets d packets max_packets s = Inr (n, packets', s')
       \<Longrightarrow> reachable s'"
| get_stats:
    "reachable s \<Longrightarrow>
       reachable (snd (snd (dpdk_get_stats d port rx_packets tx_packets rx_bytes tx_bytes s)))"
| cleanup: "reachable s \<Longrightarrow> reachable (dpdk_cleanup d s)"

text \<open>
  Two sessions to run examples on: after a successful \<open>dpdk_init(0, "0-1", 16)\<close>, and
  after \<open>dpdk_cleanup\<close> on that.
\<close>

definition running_session :: session where
  "running_session = snd (dpdk_init (nic []) 0 ''0-1'' 16 initial_session)"

definition closed_session :: session where
  "closed_session = dpdk_cleanup (nic []) running_session"

section \<open>Properties\<close>

subsection \<open>Conversions between \<open>int\<close> and \<open>uint16_t\<close>\<close>

lemma unat_word_of_int_u16: "0 \<le> c \<Longrightarrow> c < 65536 \<Longrightarrow> unat (word_of_int c :: u16) = nat c"
  by (simp add: unat_eq_nat_uint uint_word_of_int)

lemma uint_of_nat_u16: "k < 65536 \<Longrightarrow> uint (word_of_nat k :: u16) = int k"
  by (simp add: uint_nat unat_of_nat)

lemma unat_of_nat_u16: "k < 65536 \<Longrightarrow> unat (word_of_nat k :: u16) = k"
  by (simp add: unat_of_nat)

lemma of_nat_u16_eq_0: "k < 65536 \<Longrightarrow> (word_of_nat k :: u16) = 0 \<longleftrightarrow> k = 0"
  using unat_of_nat_u16 [of k] by (auto simp: unat_eq_0 [symmetric] simp del: unat_eq_0)

subsection \<open>The loops of \<open>dpdk_capture_packets\<close>\<close>

text \<open>
  When the first loop runs to its end, the array keeps its length, every entry from
  \<open>i\<close> up to \<open>nb_rx\<close> is the packet made from the mbuf in the same slot, and every
  other entry is as before.
\<close>

lemma process_loop_Inr:
  "process_loop bufs gport ts nb_rx i ps = Inr ps' \<Longrightarrow>
     length ps' = length ps \<and>
     (\<forall>j. i \<le> j \<and> j < nb_rx \<longrightarrow>
        (\<exists>m. bufs ! j = Some m \<and>
             ps' ! j = \<lparr>pkt_data = mtod m, pkt_length = data_len m,
                        pkt_port = word_of_int gport, pkt_timestamp = ts\<rparr>)) \<and>
     (\<forall>j. j < i \<or> nb_rx \<le> j \<longrightarrow> ps' ! j = ps ! j)"
proof (induction bufs gport ts nb_rx i ps rule: process_loop.induct)
  case (1 bufs gport ts nb_rx i ps)
  show ?case
  proof (cases "i < nb_rx")
    case False
    with "1.prems" show ?thesis
      by (auto simp: process_loop.simps [of bufs gport ts nb_rx i ps])
  next
    case True
    with "1.prems" obtain mbuf where
      inb: "i < length bufs" and slot: "bufs ! i = Some mbuf" and inp: "i < length ps" and
      rec: "process_loop bufs gport ts nb_rx (Suc i)
             (ps[i := \<lparr>pkt_data = mtod mbuf, pkt_length = data_len mbuf,
                       pkt_port = word_of_int gport, pkt_timestamp = ts\<rparr>]) = Inr ps'"
      by (auto simp: process_loop.simps [of bufs gport ts nb_rx i ps]
            split: if_splits option.splits)
    note ih = "1.IH" [OF True _ slot _ rec]
    from inb inp have ih': "length ps' = length ps"
      "\<And>j. Suc i \<le> j \<Longrightarrow> j < nb_rx \<Longrightarrow> \<exists>m. bufs ! j = Some m \<and>
             ps' ! j = \<lparr>pkt_data = mtod m, pkt_length = data_len m,
                        pkt_port = word_of_int gport, pkt_timestamp = ts\<rparr>"
      "\<And>j. j < Suc i \<or> nb_rx \<le> j \<Longrightarrow>
             ps' ! j = (ps[i := \<lparr>pkt_data = mtod mbuf, pkt_length = data_len mbuf,
                                 pkt_port = word_of_int gport, pkt_timestamp = ts\<rparr>]) ! j"
      using ih by auto
    show ?thesis
    proof (intro conjI allI impI)
      show "length ps' = length ps" by (rule ih')
    next
      fix j assume j: "i \<le> j \<and> j < nb_rx"
      show "\<exists>m. bufs ! j = Some m \<and>
             ps' ! j = \<lparr>pkt_data = mtod m, pkt_length = data_len m,
                        pkt_port = word_of_int gport, pkt_timestamp = ts\<rparr>"
      proof (cases "j = i")
        case True
        with ih'(3) [of i] inp slot show ?thesis by simp
      next
        case False
        with j ih'(2) [of j] show ?thesis by simp
      qed
    next
      fix j assume j: "j < i \<or> nb_rx \<le> j"
      with True have "j \<noteq> i" by auto
      with j ih'(3) [of j] show "ps' ! j = ps ! j" by auto
    qed
  qed
qed

text \<open>
  The first loop runs to its end when the first \<open>nb_rx\<close> slots of \<open>bufs\<close> are filled
  and the caller's array has room for \<open>nb_rx\<close> packets.
\<close>

lemma process_loop_total:
  "nb_rx \<le> length bufs \<Longrightarrow> \<forall>j<nb_rx. bufs ! j \<noteq> None \<Longrightarrow> nb_rx \<le> length ps \<Longrightarrow>
     \<exists>ps'. process_loop bufs gport ts nb_rx i ps = Inr ps'"
proof (induction bufs gport ts nb_rx i ps rule: process_loop.induct)
  case (1 bufs gport ts nb_rx i ps)
  note unfold = process_loop.simps [of bufs gport ts nb_rx i ps]
  show ?case
  proof (cases "i < nb_rx")
    case False
    then show ?thesis by (simp add: unfold)
  next
    case True
    with "1.prems" obtain mbuf where slot: "bufs ! i = Some mbuf" by auto
    from True "1.prems" have inb: "\<not> length bufs \<le> i" and inp: "\<not> length ps \<le> i" by auto
    from "1.IH" [OF True inb slot inp] "1.prems"
    obtain ps' where "process_loop bufs gport ts nb_rx (Suc i)
             (ps[i := \<lparr>pkt_data = mtod mbuf, pkt_length = data_len mbuf,
                       pkt_port = word_of_int gport, pkt_timestamp = ts\<rparr>]) = Inr ps'"
      by auto
    with True inb inp slot show ?thesis by (simp add: unfold)
  qed
qed

text \<open>With \<open>nb_rx\<close> within the array, the first loop never indexes \<open>bufs\<close> out of bounds.\<close>

lemma process_loop_in_bounds:
  "nb_rx \<le> length bufs \<Longrightarrow> process_loop bufs gport ts nb_rx i ps \<noteq> Inl BufsOutOfBounds"
proof (induction bufs gport ts nb_rx i ps rule: process_loop.induct)
  case (1 bufs gport ts nb_rx i ps)
  note unfold = process_loop.simps [of bufs gport ts nb_rx i ps]
  show ?case
  proof (cases "i < nb_rx")
    case False
    then show ?thesis by (simp add: unfold)
  next
    case True
    with "1.prems" have inb: "\<not> length bufs \<le> i" by simp
    show ?thesis
    proof (cases "bufs ! i")
      case None
      with True inb show ?thesis by (simp add: unfold)
    next
      case (Some mbuf)
      show ?thesis
      proof (cases "length ps \<le> i")
        case True
        with \<open>i < nb_rx\<close> inb Some show ?thesis by (simp add: unfold)
      next
        case False
        from "1.IH" [OF \<open>i < nb_rx\<close> inb Some False "1.prems"]
        show ?thesis using \<open>i < nb_rx\<close> inb Some False by (simp add: unfold)
      qed
    qed
  qed
qed

text \<open>On an array whose first slots hold the received mbufs, the second loop frees each.\<close>

lemma free_loop_filled:
  "i \<le> length rx \<Longrightarrow>
     free_loop (map Some rx @ pad) (length rx) i = Inr (map PktmbufFree (drop i rx))"
proof (induction "length rx - i" arbitrary: i)
  case 0
  then show ?case
    by (simp add: free_loop.simps [of "map Some rx @ pad" i i])
next
  case (Suc k)
  then have lt: "i < length rx" and k: "k = length rx - Suc i" by auto
  from Suc.hyps(1) [OF k] lt
  have "free_loop (map Some rx @ pad) (length rx) (Suc i) =
          Inr (map PktmbufFree (drop (Suc i) rx))"
    by simp
  with lt show ?case
    by (simp add: free_loop.simps [of "map Some rx @ pad" "length rx" i] nth_append
          Cons_nth_drop_Suc [symmetric])
qed

subsection \<open>What \<open>dpdk_capture_packets\<close> computes\<close>

lemma log_log: "log cs (log cs' s) = log (cs' @ cs) s"
  by (simp add: log_def)

lemma log_fields:
  "g_port_id (log cs s) = g_port_id s" "g_batch_size (log cs s) = g_batch_size s"
  "mbuf_pool (log cs s) = mbuf_pool s" "trace (log cs s) = trace s @ cs"
  by (simp_all add: log_def)

lemma capture_invalid:
  "packets = None \<or> max_packets \<le> 0 \<Longrightarrow>
     dpdk_capture_packets d packets max_packets s = Inr (-1, packets, s)"
  by (auto simp: dpdk_capture_packets_def split: option.splits)

lemma capture_unfold:
  assumes pos: "0 < max_packets"
    and port: "port = (word_of_int (g_port_id s) :: u16)"
    and nb: "nb_pkts = (word_of_int (capture_count s max_packets) :: u16)"
    and rx: "rx = rte_eth_rx_burst d port 0 nb_pkts"
  shows "dpdk_capture_packets d (Some ps) max_packets s =
     (if 32 < length rx then Inl BufsOutOfBounds
      else if rx = [] then Inr (0, Some ps, log [RxBurst port 0 nb_pkts] s)
      else if rte_get_tsc_hz d = 0 then Inl DivisionByZero
      else (case process_loop (map Some rx @ replicate (32 - length rx) None) (g_port_id s)
                   (ucast (rte_get_tsc_cycles d div rte_get_tsc_hz d)) (length rx) 0 ps of
              Inl f \<Rightarrow> Inl f
            | Inr ps' \<Rightarrow>
                Inr (int (length rx), Some ps',
                     log ([RxBurst port 0 nb_pkts, TscCycles, TscHz] @ map PktmbufFree rx) s)))"
proof (cases "32 < length rx")
  case True
  with pos show ?thesis
    unfolding dpdk_capture_packets_def Let_def MAX_PKT_BURST_def port nb rx by simp
next
  case False
  then have small: "length rx < 65536" by simp
  have free: "free_loop (map Some rx @ replicate (32 - length rx) None) (length rx) 0 =
                Inr (map PktmbufFree rx)"
    using free_loop_filled [of 0 rx] by simp
  from pos False unat_of_nat_u16 [OF small] uint_of_nat_u16 [OF small]
    of_nat_u16_eq_0 [OF small] free
  show ?thesis
    unfolding dpdk_capture_packets_def Let_def MAX_PKT_BURST_def port nb rx
    by (simp add: log_log split: sum.splits)
qed

text \<open>What a returning call with valid arguments has done.\<close>

lemma capture_Inr:
  assumes ret: "dpdk_capture_packets d (Some ps) max_packets s = Inr (n, packets', s')"
    and pos: "0 < max_packets"
    and port: "port = (word_of_int (g_port_id s) :: u16)"
    and nb: "nb_pkts = (word_of_int (capture_count s max_packets) :: u16)"
    and rx: "rx = rte_eth_rx_burst d port 0 nb_pkts"
  shows "length rx \<le> 32 \<and> n = int (length rx) \<and>
         (\<exists>ps'. packets' = Some ps' \<and> length ps' = length ps \<and>
            (\<forall>j<length rx. ps' ! j =
               \<lparr>pkt_data = mtod (rx ! j), pkt_length = data_len (rx ! j),
                pkt_port = word_of_int (g_port_id s),
                pkt_timestamp = ucast (rte_get_tsc_cycles d div rte_get_tsc_hz d)\<rparr>)) \<and>
         s' = log (RxBurst port 0 nb_pkts #
                   (if rx = [] then [] else [TscCycles, TscHz] @ map PktmbufFree rx)) s"
proof -
  note eq = capture_unfold [OF pos port nb rx, of ps]
  from ret have len: "length rx \<le> 32"
    unfolding eq by (simp split: if_splits)
  show ?thesis
  proof (cases "rx = []")
    case True
    with ret show ?thesis unfolding eq by auto
  next
    case False
    with ret len obtain ps' where
      loop: "process_loop (map Some rx @ replicate (32 - length rx) None) (g_port_id s)
               (ucast (rte_get_tsc_cycles d div rte_get_tsc_hz d)) (length rx) 0 ps = Inr ps'"
      and res: "n = int (length rx)" "packets' = Some ps'"
        "s' = log ([RxBurst port 0 nb_pkts, TscCycles, TscHz] @ map PktmbufFree rx) s"
      unfolding eq by (auto split: if_splits sum.splits)
    from process_loop_Inr [OF loop]
    have "length ps' = length ps"
      and filled: "\<And>j. j < length rx \<Longrightarrow>
        \<exists>m. (map Some rx @ replicate (32 - length rx) None) ! j = Some m \<and>
            ps' ! j = \<lparr>pkt_data = mtod m, pkt_length = data_len m,
                       pkt_port = word_of_int (g_port_id s),
                       pkt_timestamp = ucast (rte_get_tsc_cycles d div rte_get_tsc_hz d)\<rparr>"
      by auto
    have "ps' ! j = \<lparr>pkt_data = mtod (rx ! j), pkt_length = data_len (rx ! j),
                pkt_port = word_of_int (g_port_id s),
                pkt_timestamp = ucast (rte_get_tsc_cycles d div rte_get_tsc_hz d)\<rparr>"
      if "j < length rx" for j
      using filled [OF that] that by (auto simp: nth_append)
    with len res False \<open>length ps' = length ps\<close> show ?thesis by simp
  qed
qed

text \<open>A call with valid arguments returns when the burst fits both arrays.\<close>

lemma capture_returns:
  assumes pos: "0 < max_packets"
    and port: "port = (word_of_int (g_port_id s) :: u16)"
    and nb: "nb_pkts = (word_of_int (capture_count s max_packets) :: u16)"
    and rx: "rx = rte_eth_rx_burst d port 0 nb_pkts"
    and len: "length rx \<le> 32" and room: "length rx \<le> length ps"
    and hz: "rte_get_tsc_hz d \<noteq> 0"
  shows "\<exists>packets' s'. dpdk_capture_packets d (Some ps) max_packets s =
           Inr (int (length rx), packets', s')"
proof -
  have "\<forall>j<length rx. (map Some rx @ replicate (32 - length rx) None) ! j \<noteq> None"
    by (simp add: nth_append)
  with room obtain ps' where
    "process_loop (map Some rx @ replicate (32 - length rx) None) (g_port_id s)
       (ucast (rte_get_tsc_cycles d div rte_get_tsc_hz d)) (length rx) 0 ps = Inr ps'"
    using process_loop_total [of "length rx" "map Some rx @ replicate (32 - length rx) None" ps
            "g_port_id s" "ucast (rte_get_tsc_cycles d div rte_get_tsc_hz d)" 0]
    by auto
  with len hz show ?thesis
    unfolding capture_unfold [OF pos port nb rx, of ps] by simp
qed

lemma capture_bufs_in_bounds:
  assumes port: "port = (word_of_int (g_port_id s) :: u16)"
    and nb: "nb_pkts = (word_of_int (capture_count s max_packets) :: u16)"
    and rx: "rx = rte_eth_rx_burst d port 0 nb_pkts"
    and len: "length rx \<le> 32"
  shows "dpdk_capture_packets d packets max_packets s \<noteq> Inl BufsOutOfBounds"
proof (cases "packets = None \<or> max_packets \<le> 0")
  case True
  then show ?thesis by (simp add: capture_invalid)
next
  case False
  then obtain ps where ps: "packets = Some ps" and pos: "0 < max_packets" by auto
  have "process_loop (map Some rx @ replicate (32 - length rx) None) gp ts (length rx) 0 ps
          \<noteq> Inl BufsOutOfBounds" for gp ts
    by (rule process_loop_in_bounds) simp
  with len show ?thesis
    unfolding ps capture_unfold [OF pos port nb rx, of ps]
    by (auto split: sum.splits)
qed

lemma capture_globals:
  assumes "dpdk_capture_packets d packets max_packets s = Inr (n, packets', s')"
  shows "g_port_id s' = g_port_id s \<and> g_batch_size s' = g_batch_size s \<and>
         mbuf_pool s' = mbuf_pool s"
proof (cases "packets = None \<or> max_packets \<le> 0")
  case True
  with assms show ?thesis by (simp add: capture_invalid)
next
  case False
  then obtain ps where ps: "packets = Some ps" and pos: "0 < max_packets" by auto
  from capture_Inr [OF assms [unfolded ps] pos refl refl refl]
  show ?thesis by (simp add: log_fields)
qed

lemma capture_count_bounds:
  "0 < max_packets \<Longrightarrow> 1 \<le> g_batch_size s \<Longrightarrow> g_batch_size s \<le> 32 \<Longrightarrow>
     1 \<le> capture_count s max_packets \<and> capture_count s max_packets \<le> 32 \<and>
     capture_count s max_packets = min max_packets (g_batch_size s) \<and>
     unat (word_of_int (capture_count s max_packets) :: u16) = nat (capture_count s max_packets)"
  by (auto simp: capture_count_def unat_word_of_int_u16)

subsection \<open>What the other functions do to the globals\<close>

text \<open>
  \<open>dpdk_init\<close> stores the port and the batch size once the runtime is up and the
  port is in range, that is unless it returns -1, -2 or -3.
\<close>

lemma init_globals:
  "dpdk_init d port cores batch_size s = (r, s') \<Longrightarrow>
     (if r = -1 \<or> r = -2 \<or> r = -3
      then g_batch_size s' = g_batch_size s \<and> g_port_id s' = g_port_id s
      else g_batch_size s' = (if 0 < batch_size \<and> batch_size \<le> 32 then batch_size else 32) \<and>
           g_port_id s' = port)"
  by (auto simp: dpdk_init_def Let_def log_fields MAX_PKT_BURST_def split: if_splits prod.splits)

lemma get_stats_globals:
  "dpdk_get_stats d port rp tp rb tb s = (r, out, s') \<Longrightarrow>
     g_port_id s' = g_port_id s \<and> g_batch_size s' = g_batch_size s \<and>
     mbuf_pool s' = mbuf_pool s"
  by (auto simp: dpdk_get_stats_def Let_def log_fields split: if_splits prod.splits)

lemma cleanup_log:
  "dpdk_cleanup d s =
     log (IsValidPort (word_of_int (g_port_id s)) #
          (if rte_eth_dev_is_valid_port d (word_of_int (g_port_id s))
           then [DevStop (word_of_int (g_port_id s)), DevClose (word_of_int (g_port_id s))]
           else []) @ [EalCleanup]) s"
  by (simp add: dpdk_cleanup_def Let_def log_log)

text \<open>The batch size stays within 1 and 32 over every sequence of calls.\<close>

lemma reachable_batch_size: "reachable s \<Longrightarrow> 1 \<le> g_batch_size s \<and> g_batch_size s \<le> 32"
proof (induction rule: reachable.induct)
  case initial
  show ?case by (simp add: initial_session_def MAX_PKT_BURST_def)
next
  case (init s d port cores batch_size)
  obtain r s' where eq: "dpdk_init d port cores batch_size s = (r, s')"
    by (cases "dpdk_init d port cores batch_size s")
  from init_globals [OF eq] init.IH show ?case
    by (auto simp: eq split: if_splits)
next
  case (capture s d packets max_packets n packets' s')
  from capture_globals [OF capture.hyps(2)] capture.IH show ?case by simp
next
  case (get_stats s d port rx_packets tx_packets rx_bytes tx_bytes)
  obtain r out s' where eq: "dpdk_get_stats d port rx_packets tx_packets rx_bytes tx_bytes s = (r, out, s')"
    by (cases "dpdk_get_stats d port rx_packets tx_packets rx_bytes tx_bytes s") auto
  from get_stats_globals [OF eq] get_stats.IH show ?case by (simp add: eq)
next
  case (cleanup s d)
  then show ?case by (simp add: cleanup_log log_fields)
qed

text \<open>
  With a batch size in range, a burst receive that honours its contract delivers no
  more than the smaller of \<open>max_packets\<close> and the batch size.
\<close>

lemma burst_within_request:
  assumes "rx_burst_contract d" "0 < max_packets" "1 \<le> g_batch_size s" "g_batch_size s \<le> 32"
  shows "int (length (rte_eth_rx_burst d port q (word_of_int (capture_count s max_packets))))
           \<le> min max_packets (g_batch_size s)"
proof -
  from assms(1) have "length (rte_eth_rx_burst d port q (word_of_int (capture_count s max_packets)))
      \<le> unat (word_of_int (capture_count s max_packets) :: u16)"
    by (simp add: rx_burst_contract_def)
  with capture_count_bounds [OF assms(2-4)] show ?thesis by linarith
qed

subsection \<open>The example sessions and the example runtime\<close>

text \<open>\<open>dpdk_init(0, "0-1", 16)\<close> on the example runtime succeeds; what it leaves.\<close>

lemma init_running_eval:
  "dpdk_init (nic []) 0 ''0-1'' 16 initial_session =
     (0, \<lparr>mbuf_pool = Some 1, g_port_id = 0, g_batch_size = 16,
          trace = [EalInit [''dpdk_capture'', ''-l'', ''0-1'', ''--''], DevCountAvail,
                   PoolCreate ''MBUF_POOL'' 8192 250 0 2176 0,
                   IsValidPort 0, DevInfoGet 0,
                   DevConfigure 0 1 1 \<lparr>rxmode_max_lro_pkt_size = 1518, txmode_offloads = 0\<rparr>,
                   AdjustNbRxTxDesc 0 1024 1024,
                   DevSocketId 0, RxQueueSetup 0 0 1024 0 (Some 1),
                   DevSocketId 0,
                   TxQueueSetup 0 0 1024 0 \<lparr>txconf_offloads = 0, txconf_other = 0\<rparr>,
                   DevStart 0, MacaddrGet 0, PromiscuousEnable 0]\<rparr>)"
  by code_simp

lemma running_session_eq:
  "running_session =
     \<lparr>mbuf_pool = Some 1, g_port_id = 0, g_batch_size = 16,
      trace = [EalInit [''dpdk_capture'', ''-l'', ''0-1'', ''--''], DevCountAvail,
               PoolCreate ''MBUF_POOL'' 8192 250 0 2176 0,
               IsValidPort 0, DevInfoGet 0,
               DevConfigure 0 1 1 \<lparr>rxmode_max_lro_pkt_size = 1518, txmode_offloads = 0\<rparr>,
               AdjustNbRxTxDesc 0 1024 1024,
               DevSocketId 0, RxQueueSetup 0 0 1024 0 (Some 1),
               DevSocketId 0,
               TxQueueSetup 0 0 1024 0 \<lparr>txconf_offloads = 0, txconf_other = 0\<rparr>,
               DevStart 0, MacaddrGet 0, PromiscuousEnable 0]\<rparr>"
  by (simp add: running_session_def init_running_eval)

lemma init_running: "dpdk_init (nic []) 0 ''0-1'' 16 initial_session = (0, running_session)"
  by (simp add: running_session_def init_running_eval)

lemma running_session_globals:
  "g_port_id running_session = 0" "g_batch_size running_session = 16"
  "mbuf_pool running_session = Some 1"
  by (simp_all add: running_session_eq)

lemma closed_session_eq:
  "closed_session = log [IsValidPort 0, DevStop 0, DevClose 0, EalCleanup] running_session"
  by (simp add: closed_session_def cleanup_log running_session_globals nic_def)

lemma closed_session_globals:
  "g_port_id closed_session = 0" "g_batch_size closed_session = 16"
  "mbuf_pool closed_session = Some 1"
  by (simp_all add: closed_session_eq log_fields running_session_globals)

text \<open>The example runtime delivers at most what it is asked for.\<close>

lemma nic_fields:
  "rte_eth_rx_burst (nic fs) port q n = take (unat n) fs"
  "rte_get_tsc_cycles (nic fs) = 7500" "rte_get_tsc_hz (nic fs) = 1000"
  "rte_eth_stats_get (nic fs) port = (0, \<lparr>ipackets = 3, opackets = 0, ibytes = 180, obytes = 0\<rparr>)"
  "rte_eth_dev_is_valid_port (nic fs) port \<longleftrightarrow> port = 0"
  by (simp_all add: nic_def)

lemma nic_contract: "rx_burst_contract (nic fs)"
  by (simp add: rx_burst_contract_def nic_fields)

subsection \<open>The queue loops of \<open>port_init\<close> with one ring\<close>

lemma rx_queue_loop_single:
  "rx_queue_loop d port pool nb_rxd (Suc 0) 0 =
     (if rte_eth_rx_queue_setup d port 0 nb_rxd (word_of_int (rte_eth_dev_socket_id d port)) pool < 0
      then Some (rte_eth_rx_queue_setup d port 0 nb_rxd
                   (word_of_int (rte_eth_dev_socket_id d port)) pool)
      else None,
      [DevSocketId port,
       RxQueueSetup port 0 nb_rxd (word_of_int (rte_eth_dev_socket_id d port)) pool])"
  by (simp add: rx_queue_loop.simps [of d port pool nb_rxd "Suc 0" 0]
        rx_queue_loop.simps [of d port pool nb_rxd "Suc 0" "Suc 0"] Let_def)

lemma tx_queue_loop_single:
  "tx_queue_loop d port txconf nb_txd (Suc 0) 0 =
     (if rte_eth_tx_queue_setup d port 0 nb_txd (word_of_int (rte_eth_dev_socket_id d port)) txconf < 0
      then Some (rte_eth_tx_queue_setup d port 0 nb_txd
                   (word_of_int (rte_eth_dev_socket_id d port)) txconf)
      else None,
      [DevSocketId port,
       TxQueueSetup port 0 nb_txd (word_of_int (rte_eth_dev_socket_id d port)) txconf])"
  by (simp add: tx_queue_loop.simps [of d port txconf nb_txd "Suc 0" 0]
        tx_queue_loop.simps [of d port txconf nb_txd "Suc 0" "Suc 0"] Let_def)

section \<open>The claims\<close>

text \<open>
  Claim C1. In every session whose batch size is between 1 and 32, however it was
  reached, and for every positive \<open>max_packets\<close>, a capture call that returns gives
  at most \<open>min(max_packets, g_batch_size)\<close> packets, the runtime honouring the
  contract of its burst receive. The call does return, with a count between 0 and that
  bound, when the caller's array has room for \<open>max_packets\<close> packets and the
  counter's frequency is not zero.
\<close>

theorem capture_at_most_min:
  assumes bs: "1 \<le> g_batch_size s" "g_batch_size s \<le> 32"
    and pos: "0 < max_packets"
    and contract: "rx_burst_contract d"
  shows "(\<forall>n packets' s'. dpdk_capture_packets d packets max_packets s = Inr (n, packets', s')
            \<longrightarrow> n \<le> min max_packets (g_batch_size s)) \<and>
         (\<forall>ps. packets = Some ps \<and> max_packets \<le> int (length ps) \<and> rte_get_tsc_hz d \<noteq> 0
            \<longrightarrow> (\<exists>n packets' s'. dpdk_capture_packets d packets max_packets s = Inr (n, packets', s')
                    \<and> 0 \<le> n \<and> n \<le> min max_packets (g_batch_size s)))"
proof -
  define rx where "rx = rte_eth_rx_burst d (word_of_int (g_port_id s)) 0
                          (word_of_int (capture_count s max_packets))"
  from burst_within_request [OF contract pos bs, of "word_of_int (g_port_id s)" 0]
  have le: "int (length rx) \<le> min max_packets (g_batch_size s)"
    unfolding rx_def by simp
  with bs have len: "length rx \<le> 32" by simp
  have upper: "n \<le> min max_packets (g_batch_size s)"
    if ret: "dpdk_capture_packets d packets max_packets s = Inr (n, packets', s')"
    for n packets' s'
  proof (cases packets)
    case None
    with ret pos bs show ?thesis by (simp add: capture_invalid)
  next
    case (Some ps)
    from capture_Inr [OF ret [unfolded Some] pos refl refl rx_def] le
    show ?thesis by simp
  qed
  have total: "\<exists>n packets' s'. dpdk_capture_packets d packets max_packets s = Inr (n, packets', s')
                    \<and> 0 \<le> n \<and> n \<le> min max_packets (g_batch_size s)"
    if "packets = Some ps" "max_packets \<le> int (length ps)" "rte_get_tsc_hz d \<noteq> 0" for ps
  proof -
    from le that(2) have room: "length rx \<le> length ps" by simp
    from capture_returns [OF pos refl refl rx_def len room that(3)] le that(1)
    show ?thesis by auto
  qed
  from upper total show ?thesis by blast
qed

text \<open>
  An instance: the session that a first \<open>capture(16)\<close> leaves after
  \<open>dpdk_init(0, "0-1", 16)\<close>, with three frames waiting and \<open>max_packets = 20\<close>.
\<close>

theorem capture_at_most_min_witness:
  "1 \<le> g_batch_size (log [RxBurst 0 0 16] running_session) \<and>
   g_batch_size (log [RxBurst 0 0 16] running_session) \<le> 32 \<and>
   (0::int) < 20 \<and>
   rx_burst_contract (nic (map frame [1, 2, 3])) \<and>
   g_batch_size (log [RxBurst 0 0 16] running_session) = 16 \<and>
   (\<exists>n packets' s'.
      dpdk_capture_packets (nic (map frame [1, 2, 3])) (Some (replicate 20 blank)) 20
        (log [RxBurst 0 0 16] running_session) = Inr (n, packets', s') \<and>
      0 \<le> n \<and> n \<le> min 20 16)"
proof -
  have g: "g_batch_size (log [RxBurst 0 0 16] running_session) = 16"
    by (simp add: log_fields running_session_globals)
  then have bs: "1 \<le> g_batch_size (log [RxBurst 0 0 16] running_session)"
    "g_batch_size (log [RxBurst 0 0 16] running_session) \<le> 32"
    by simp_all
  have hz: "rte_get_tsc_hz (nic (map frame [1, 2, 3])) \<noteq> 0"
    by (simp add: nic_fields)
  from capture_at_most_min [OF bs _ nic_contract,
      of 20 "map frame [1, 2, 3]" "Some (replicate 20 blank)"] hz g
  show ?thesis using nic_contract by simp
qed

text \<open>
  Claim C2, as the code has it. For every session, whether \<open>dpdk_init\<close> has run or
  not, a capture call with \<open>max_packets \<le> 0\<close> returns -1 and calls nothing of the
  runtime. The library keeps no record of being configured and capture does not test for
  it: with a non-null array and a positive \<open>max_packets\<close> the call makes the burst
  receive on port \<open>g_port_id\<close> in every session, and what it returns is not negative.
\<close>

theorem capture_argument_check:
  "(max_packets \<le> 0 \<longrightarrow> dpdk_capture_packets d packets max_packets s = Inr (-1, packets, s)) \<and>
   (0 < max_packets' \<and> dpdk_capture_packets d (Some ps) max_packets' s = Inr (n, packets', s')
      \<longrightarrow> 0 \<le> n \<and>
          (\<exists>cs. trace s' = trace s @ RxBurst (word_of_int (g_port_id s)) 0
                                        (word_of_int (capture_count s max_packets')) # cs))"
proof (intro conjI impI)
  assume "max_packets \<le> 0"
  then show "dpdk_capture_packets d packets max_packets s = Inr (-1, packets, s)"
    by (simp add: capture_invalid)
next
  assume a: "0 < max_packets' \<and> dpdk_capture_packets d (Some ps) max_packets' s = Inr (n, packets', s')"
  then have pos: "0 < max_packets'"
    and ret: "dpdk_capture_packets d (Some ps) max_packets' s = Inr (n, packets', s')" by simp_all
  note r = capture_Inr [OF ret pos refl refl refl]
  from r show "0 \<le> n" by simp
  from r show "\<exists>cs. trace s' = trace s @ RxBurst (word_of_int (g_port_id s)) 0
                                        (word_of_int (capture_count s max_packets')) # cs"
    by (simp add: log_fields)
qed

theorem capture_argument_check_witness:
  "(0::int) \<le> 0 \<and>
   dpdk_capture_packets (nic [frame 100]) (Some [blank]) 0 initial_session
     = Inr (-1, Some [blank], initial_session) \<and>
   (0::int) < 1 \<and>
   dpdk_capture_packets (nic [frame 100]) (Some [blank]) 1 initial_session
     = Inr (1, Some [\<lparr>pkt_data = 100, pkt_length = 60, pkt_port = 0, pkt_timestamp = 7\<rparr>],
            log [RxBurst 0 0 1, TscCycles, TscHz, PktmbufFree (frame 100)] initial_session) \<and>
   (\<exists>cs. trace (log [RxBurst 0 0 1, TscCycles, TscHz, PktmbufFree (frame 100)] initial_session)
          = trace initial_session @
            RxBurst (word_of_int (g_port_id initial_session)) 0
              (word_of_int (capture_count initial_session 1)) # cs)"
proof -
  have run: "dpdk_capture_packets (nic [frame 100]) (Some [blank]) 1 initial_session
     = Inr (1, Some [\<lparr>pkt_data = 100, pkt_length = 60, pkt_port = 0, pkt_timestamp = 7\<rparr>],
            log [RxBurst 0 0 1, TscCycles, TscHz, PktmbufFree (frame 100)] initial_session)"
    by (simp add: capture_unfold [OF _ refl refl refl] nic_fields capture_count_def
          initial_session_def MAX_PKT_BURST_def process_loop.simps frame_def blank_def)
  from capture_argument_check [of 0 "nic [frame 100]" "Some [blank]" initial_session 1 "[blank]"
      1 "Some [\<lparr>pkt_data = 100, pkt_length = 60, pkt_port = 0, pkt_timestamp = 7\<rparr>]"
      "log [RxBurst 0 0 1, TscCycles, TscHz, PktmbufFree (frame 100)] initial_session"] run
  show ?thesis by simp
qed

text \<open>
  Claim C2 as stated fails: on the static initialisers, before any \<open>dpdk_init\<close>, a
  capture call for one packet makes the burst receive on port 0 and returns 0, which is
  no error.
\<close>

theorem capture_unconfigured_counterexample:
  "dpdk_capture_packets (nic []) (Some [blank]) 1 initial_session
     = Inr (0, Some [blank], log [RxBurst 0 0 1] initial_session) \<and>
   \<not> (0::int) < 0 \<and>
   trace (log [RxBurst 0 0 1] initial_session) = [RxBurst 0 0 1]"
  by (simp add: capture_unfold [OF _ refl refl refl] nic_fields capture_count_def
        initial_session_def MAX_PKT_BURST_def log_def)

text \<open>
  Claim C3. Whenever \<open>dpdk_init\<close> gets as far as storing the batch size, that is
  unless it fails with -1, -2 or -3 before, the batch size it stores is the argument when
  that is between 1 and \<open>MAX_PKT_BURST = 32\<close>, and 32 otherwise; and whatever
  \<open>dpdk_init\<close> returns, a batch size within 1 and 32 before the call is within 1 and
  32 after it.
\<close>

theorem init_clamps_batch_size:
  assumes "dpdk_init d port cores batch_size s = (r, s')"
  shows "(r \<noteq> -1 \<and> r \<noteq> -2 \<and> r \<noteq> -3 \<longrightarrow>
            g_batch_size s' = (if 1 \<le> batch_size \<and> batch_size \<le> 32 then batch_size else 32) \<and>
            1 \<le> g_batch_size s' \<and> g_batch_size s' \<le> 32) \<and>
         (1 \<le> g_batch_size s \<and> g_batch_size s \<le> 32 \<longrightarrow>
            1 \<le> g_batch_size s' \<and> g_batch_size s' \<le> 32) \<and>
         MAX_PKT_BURST = 32"
  using init_globals [OF assms] by (auto simp: MAX_PKT_BURST_def split: if_splits)

theorem init_clamps_batch_size_witness:
  "dpdk_init (nic []) 0 ''0-1'' 16 initial_session = (0, running_session) \<and>
   (0::int) \<noteq> -1 \<and> (0::int) \<noteq> -2 \<and> (0::int) \<noteq> -3 \<and>
   g_batch_size running_session = 16 \<and>
   1 \<le> g_batch_size initial_session \<and> g_batch_size initial_session \<le> 32"
proof -
  have "g_batch_size initial_session = 32"
    by (simp add: initial_session_def MAX_PKT_BURST_def)
  with init_clamps_batch_size [OF init_running] init_running show ?thesis by simp
qed

text \<open>
  Claim C4, as the code has it. \<open>dpdk_cleanup\<close> keeps no record of having run: it
  leaves the port, the batch size and the pool handle as they were and only makes its
  teardown calls. After it, a capture call with a non-null array and a positive
  \<open>max_packets\<close> still makes the burst receive, and what it returns is not negative;
  \<open>dpdk_get_stats\<close> for \<open>g_port_id\<close> still queries the driver and returns the
  driver's code; and a second \<open>dpdk_cleanup\<close> makes the teardown calls again: the
  validity check, stop and close when the port is valid, and \<open>rte_eal_cleanup\<close>.
\<close>

theorem cleanup_keeps_session_usable:
  "g_port_id (dpdk_cleanup dc s) = g_port_id s \<and>
   g_batch_size (dpdk_cleanup dc s) = g_batch_size s \<and>
   mbuf_pool (dpdk_cleanup dc s) = mbuf_pool s \<and>
   (0 < max_packets \<and>
    dpdk_capture_packets d (Some ps) max_packets (dpdk_cleanup dc s) = Inr (n, packets', s')
      \<longrightarrow> 0 \<le> n \<and>
          (\<exists>cs. trace s' = trace (dpdk_cleanup dc s) @
                   RxBurst (word_of_int (g_port_id s)) 0
                     (word_of_int (capture_count s max_packets)) # cs)) \<and>
   fst (dpdk_get_stats d (g_port_id s) rx_packets tx_packets rx_bytes tx_bytes (dpdk_cleanup dc s))
     = fst (rte_eth_stats_get d (word_of_int (g_port_id s))) \<and>
   snd (snd (dpdk_get_stats d (g_port_id s) rx_packets tx_packets rx_bytes tx_bytes
               (dpdk_cleanup dc s)))
     = log [StatsGet (word_of_int (g_port_id s))] (dpdk_cleanup dc s) \<and>
   dpdk_cleanup d (dpdk_cleanup dc s)
     = log (IsValidPort (word_of_int (g_port_id s)) #
            (if rte_eth_dev_is_valid_port d (word_of_int (g_port_id s))
             then [DevStop (word_of_int (g_port_id s)), DevClose (word_of_int (g_port_id s))]
             else []) @ [EalCleanup])
         (dpdk_cleanup dc s)"
proof -
  have globals: "g_port_id (dpdk_cleanup dc s) = g_port_id s"
    "g_batch_size (dpdk_cleanup dc s) = g_batch_size s"
    "mbuf_pool (dpdk_cleanup dc s) = mbuf_pool s"
    by (simp_all add: cleanup_log log_fields)
  then have cc: "capture_count (dpdk_cleanup dc s) max_packets = capture_count s max_packets"
    by (simp add: capture_count_def)
  have capture: "0 \<le> n \<and>
          (\<exists>cs. trace s' = trace (dpdk_cleanup dc s) @
                   RxBurst (word_of_int (g_port_id s)) 0
                     (word_of_int (capture_count s max_packets)) # cs)"
    if pos: "0 < max_packets"
      and ret: "dpdk_capture_packets d (Some ps) max_packets (dpdk_cleanup dc s)
                  = Inr (n, packets', s')"
    using capture_Inr [OF ret pos refl refl refl] by (simp add: log_fields globals cc)
  have stats: "fst (dpdk_get_stats d (g_port_id s) rx_packets tx_packets rx_bytes tx_bytes
                      (dpdk_cleanup dc s))
                 = fst (rte_eth_stats_get d (word_of_int (g_port_id s)))"
    "snd (snd (dpdk_get_stats d (g_port_id s) rx_packets tx_packets rx_bytes tx_bytes
                 (dpdk_cleanup dc s)))
       = log [StatsGet (word_of_int (g_port_id s))] (dpdk_cleanup dc s)"
    by (simp_all add: dpdk_get_stats_def globals Let_def case_prod_beta)
  have again: "dpdk_cleanup d (dpdk_cleanup dc s)
     = log (IsValidPort (word_of_int (g_port_id s)) #
            (if rte_eth_dev_is_valid_port d (word_of_int (g_port_id s))
             then [DevStop (word_of_int (g_port_id s)), DevClose (word_of_int (g_port_id s))]
             else []) @ [EalCleanup])
         (dpdk_cleanup dc s)"
    by (simp add: cleanup_log [of d] globals)
  from globals capture stats again show ?thesis by blast
qed

theorem cleanup_keeps_session_usable_witness:
  "(0::int) < 1 \<and>
   dpdk_capture_packets (nic [frame 100]) (Some [blank]) 1 (dpdk_cleanup (nic []) running_session)
     = Inr (1, Some [\<lparr>pkt_data = 100, pkt_length = 60, pkt_port = 0, pkt_timestamp = 7\<rparr>],
            log [RxBurst 0 0 1, TscCycles, TscHz, PktmbufFree (frame 100)] closed_session) \<and>
   (\<exists>cs. trace (log [RxBurst 0 0 1, TscCycles, TscHz, PktmbufFree (frame 100)] closed_session)
          = trace (dpdk_cleanup (nic []) running_session) @
            RxBurst (word_of_int (g_port_id running_session)) 0
              (word_of_int (capture_count running_session 1)) # cs)"
proof -
  have run: "dpdk_capture_packets (nic [frame 100]) (Some [blank]) 1
               (dpdk_cleanup (nic []) running_session)
     = Inr (1, Some [\<lparr>pkt_data = 100, pkt_length = 60, pkt_port = 0, pkt_timestamp = 7\<rparr>],
            log [RxBurst 0 0 1, TscCycles, TscHz, PktmbufFree (frame 100)] closed_session)"
    unfolding closed_session_def [symmetric]
    by (simp add: capture_unfold [OF _ refl refl refl] nic_fields capture_count_def
          closed_session_globals process_loop.simps frame_def blank_def)
  from cleanup_keeps_session_usable [where dc = "nic []" and s = running_session
      and max_packets = 1 and d = "nic [frame 100]" and ps = "[blank]" and n = 1
      and packets' = "Some [\<lparr>pkt_data = 100, pkt_length = 60, pkt_port = 0, pkt_timestamp = 7\<rparr>]"
      and s' = "log [RxBurst 0 0 1, TscCycles, TscHz, PktmbufFree (frame 100)] closed_session"]
    run
  show ?thesis by simp
qed

text \<open>
  Claim C4 as stated fails: in the session that \<open>dpdk_init\<close> and then
  \<open>dpdk_cleanup\<close> leave, a capture call for one packet makes the burst receive and
  returns 0, \<open>dpdk_get_stats(0)\<close> queries the driver and returns 0 with its counters,
  and a second \<open>dpdk_cleanup\<close> stops and closes the port and cleans up the runtime
  once more.
\<close>

theorem cleanup_not_absorbing_counterexample:
  "dpdk_capture_packets (nic []) (Some [blank]) 1 closed_session
     = Inr (0, Some [blank], log [RxBurst 0 0 1] closed_session) \<and>
   dpdk_get_stats (nic []) 0 (Some 0) (Some 0) (Some 0) (Some 0) closed_session
     = (0, (Some 3, Some 0, Some 180, Some 0), log [StatsGet 0] closed_session) \<and>
   \<not> (0::int) < 0 \<and>
   dpdk_cleanup (nic []) closed_session
     = log [IsValidPort 0, DevStop 0, DevClose 0, EalCleanup] closed_session \<and>
   dpdk_cleanup (nic []) closed_session \<noteq> closed_session"
proof -
  have capture: "dpdk_capture_packets (nic []) (Some [blank]) 1 closed_session
     = Inr (0, Some [blank], log [RxBurst 0 0 1] closed_session)"
    by (simp add: capture_unfold [OF _ refl refl refl] nic_fields capture_count_def
          closed_session_globals)
  have stats: "dpdk_get_stats (nic []) 0 (Some 0) (Some 0) (Some 0) (Some 0) closed_session
     = (0, (Some 3, Some 0, Some 180, Some 0), log [StatsGet 0] closed_session)"
    by (simp add: dpdk_get_stats_def closed_session_globals nic_fields store_def)
  have again: "dpdk_cleanup (nic []) closed_session
     = log [IsValidPort 0, DevStop 0, DevClose 0, EalCleanup] closed_session"
    by (simp add: cleanup_log closed_session_globals nic_fields)
  have "trace (log [IsValidPort 0, DevStop 0, DevClose 0, EalCleanup] closed_session)
          \<noteq> trace closed_session"
    by (simp add: log_fields)
  then have "log [IsValidPort 0, DevStop 0, DevClose 0, EalCleanup] closed_session
               \<noteq> closed_session"
    by auto
  with capture stats again show ?thesis by simp
qed

text \<open>
  Claim C5. For every port other than the session's \<open>g_port_id\<close>, \<open>dpdk_get_stats\<close>
  returns -1, stores nothing and calls nothing of the runtime, in every session and
  so also in the session a capture call has returned; for \<open>g_port_id\<close> itself, when
  the driver's query succeeds, it returns 0 and stores the driver's four counters as
  they are through the non-null pointers.
\<close>

theorem get_stats_port_check:
  "(port \<noteq> g_port_id s \<longrightarrow>
      dpdk_get_stats d port rx_packets tx_packets rx_bytes tx_bytes s
        = (-1, (rx_packets, tx_packets, rx_bytes, tx_bytes), s)) \<and>
   (port \<noteq> g_port_id s \<and> dpdk_capture_packets d' packets max_packets s = Inr (n, packets', s')
      \<longrightarrow> dpdk_get_stats d port rx_packets tx_packets rx_bytes tx_bytes s'
        = (-1, (rx_packets, tx_packets, rx_bytes, tx_bytes), s')) \<and>
   (rte_eth_stats_get d (word_of_int (g_port_id s)) = (0, stats) \<longrightarrow>
      dpdk_get_stats d (g_port_id s) rx_packets tx_packets rx_bytes tx_bytes s
        = (0, (store rx_packets (ipackets stats), store tx_packets (opackets stats),
               store rx_bytes (ibytes stats), store tx_bytes (obytes stats)),
           log [StatsGet (word_of_int (g_port_id s))] s))"
proof (intro conjI impI)
  assume "port \<noteq> g_port_id s"
  then show "dpdk_get_stats d port rx_packets tx_packets rx_bytes tx_bytes s
        = (-1, (rx_packets, tx_packets, rx_bytes, tx_bytes), s)"
    by (simp add: dpdk_get_stats_def)
next
  assume a: "port \<noteq> g_port_id s \<and> dpdk_capture_packets d' packets max_packets s = Inr (n, packets', s')"
  with capture_globals [of d' packets max_packets s n packets' s']
  have "port \<noteq> g_port_id s'" by simp
  then show "dpdk_get_stats d port rx_packets tx_packets rx_bytes tx_bytes s'
        = (-1, (rx_packets, tx_packets, rx_bytes, tx_bytes), s')"
    by (simp add: dpdk_get_stats_def)
next
  assume "rte_eth_stats_get d (word_of_int (g_port_id s)) = (0, stats)"
  then show "dpdk_get_stats d (g_port_id s) rx_packets tx_packets rx_bytes tx_bytes s
        = (0, (store rx_packets (ipackets stats), store tx_packets (opackets stats),
               store rx_bytes (ibytes stats), store tx_bytes (obytes stats)),
           log [StatsGet (word_of_int (g_port_id s))] s)"
    by (simp add: dpdk_get_stats_def)
qed

theorem get_stats_port_check_witness:
  "(1::int) \<noteq> g_port_id running_session \<and>
   dpdk_capture_packets (nic [frame 100]) (Some [blank]) 1 running_session
     = Inr (1, Some [\<lparr>pkt_data = 100, pkt_length = 60, pkt_port = 0, pkt_timestamp = 7\<rparr>],
            log [RxBurst 0 0 1, TscCycles, TscHz, PktmbufFree (frame 100)] running_session) \<and>
   dpdk_get_stats (nic []) 1 (Some 0) (Some 0) None (Some 9) running_session
     = (-1, (Some 0, Some 0, None, Some 9), running_session) \<and>
   dpdk_get_stats (nic []) 1 (Some 0) (Some 0) None (Some 9)
       (log [RxBurst 0 0 1, TscCycles, TscHz, PktmbufFree (frame 100)] running_session)
     = (-1, (Some 0, Some 0, None, Some 9),
        log [RxBurst 0 0 1, TscCycles, TscHz, PktmbufFree (frame 100)] running_session) \<and>
   rte_eth_stats_get (nic []) (word_of_int (g_port_id running_session))
     = (0, \<lparr>ipackets = 3, opackets = 0, ibytes = 180, obytes = 0\<rparr>) \<and>
   dpdk_get_stats (nic []) (g_port_id running_session) (Some 0) (Some 0) None (Some 9)
       running_session
     = (0, (Some 3, Some 0, None, Some 0), log [StatsGet 0] running_session)"
proof -
  have run: "dpdk_capture_packets (nic [frame 100]) (Some [blank]) 1 running_session
     = Inr (1, Some [\<lparr>pkt_data = 100, pkt_length = 60, pkt_port = 0, pkt_timestamp = 7\<rparr>],
            log [RxBurst 0 0 1, TscCycles, TscHz, PktmbufFree (frame 100)] running_session)"
    by (simp add: capture_unfold [OF _ refl refl refl] nic_fields capture_count_def
          running_session_globals process_loop.simps frame_def blank_def)
  have st: "rte_eth_stats_get (nic []) (word_of_int (g_port_id running_session))
     = (0, \<lparr>ipackets = 3, opackets = 0, ibytes = 180, obytes = 0\<rparr>)"
    by (simp add: nic_fields)
  have port: "(1::int) \<noteq> g_port_id running_session"
    by (simp add: running_session_globals)
  from get_stats_port_check [where port = 1 and s = running_session and d = "nic []"
      and rx_packets = "Some 0" and tx_packets = "Some 0" and rx_bytes = None
      and tx_bytes = "Some 9" and d' = "nic [frame 100]" and packets = "Some [blank]"
      and max_packets = 1 and n = 1
      and packets' = "Some [\<lparr>pkt_data = 100, pkt_length = 60, pkt_port = 0, pkt_timestamp = 7\<rparr>]"
      and s' = "log [RxBurst 0 0 1, TscCycles, TscHz, PktmbufFree (frame 100)] running_session"
      and stats = "\<lparr>ipackets = 3, opackets = 0, ibytes = 180, obytes = 0\<rparr>"]
    run st port
  show ?thesis by (simp add: running_session_globals store_def)
qed

text \<open>
  Claim C6. \<open>port_init\<close> makes its calls in one fixed order and stops at the first
  that fails, returning that call's code with nothing after it made: the device
  information, the configuration with one receive and one transmit ring, the adjustment
  of the descriptor counts asked for as 1024 and 1024, the set-up of receive queue 0 and
  of transmit queue 0 with the counts the driver gave back and the port's socket id as
  converted to \<open>unsigned int\<close>, the start, the MAC address and promiscuous mode. A
  port the runtime does not know gives -1 before any of them.
  When \<open>port_init\<close> returns 0 it has made all the calls, among them one receive queue
  set-up and one transmit queue set-up.
\<close>

theorem port_init_steps:
  fixes d :: dpdk and port :: u16 and pool :: "mempool option"
  defines "dev_info \<equiv> snd (rte_eth_dev_info_get d port)"
  defines "port_conf \<equiv>
           (if tx_offload_capa dev_info AND RTE_ETH_TX_OFFLOAD_MBUF_FAST_FREE \<noteq> 0
            then port_conf_default
                   \<lparr>txmode_offloads := txmode_offloads port_conf_default
                                         OR RTE_ETH_TX_OFFLOAD_MBUF_FAST_FREE\<rparr>
            else port_conf_default)"
    and "nb_rxd \<equiv> fst (snd (rte_eth_dev_adjust_nb_rx_tx_desc d port 1024 1024))"
    and "nb_txd \<equiv> snd (snd (rte_eth_dev_adjust_nb_rx_tx_desc d port 1024 1024))"
    and "socket \<equiv> (word_of_int (rte_eth_dev_socket_id d port) :: u32)"
  defines "txconf \<equiv> (default_txconf dev_info)\<lparr>txconf_offloads := txmode_offloads port_conf\<rparr>"
  defines "r_info \<equiv> fst (rte_eth_dev_info_get d port)"
    and "r_configure \<equiv> rte_eth_dev_configure d port 1 1 port_conf"
    and "r_adjust \<equiv> fst (rte_eth_dev_adjust_nb_rx_tx_desc d port 1024 1024)"
    and "r_rx_queue \<equiv> rte_eth_rx_queue_setup d port 0 nb_rxd socket pool"
    and "r_tx_queue \<equiv> rte_eth_tx_queue_setup d port 0 nb_txd socket txconf"
    and "r_start \<equiv> rte_eth_dev_start d port"
    and "r_macaddr \<equiv> rte_eth_macaddr_get d port"
    and "r_promiscuous \<equiv> rte_eth_promiscuous_enable d port"
    and "calls \<equiv>
           [IsValidPort port, DevInfoGet port, DevConfigure port 1 1 port_conf,
            AdjustNbRxTxDesc port 1024 1024,
            DevSocketId port, RxQueueSetup port 0 nb_rxd socket pool,
            DevSocketId port, TxQueueSetup port 0 nb_txd socket txconf,
            DevStart port, MacaddrGet port, PromiscuousEnable port]"
  shows "port_init d port pool =
           (if \<not> rte_eth_dev_is_valid_port d port then (-1, take 1 calls)
            else if r_info \<noteq> 0 then (r_info, take 2 calls)
            else if r_configure \<noteq> 0 then (r_configure, take 3 calls)
            else if r_adjust \<noteq> 0 then (r_adjust, take 4 calls)
            else if r_rx_queue < 0 then (r_rx_queue, take 6 calls)
            else if r_tx_queue < 0 then (r_tx_queue, take 8 calls)
            else if r_start < 0 then (r_start, take 9 calls)
            else if r_macaddr \<noteq> 0 then (r_macaddr, take 10 calls)
            else if r_promiscuous \<noteq> 0 then (r_promiscuous, calls)
            else (0, calls)) \<and>
         (fst (port_init d port pool) = 0 \<longrightarrow>
            snd (port_init d port pool) = calls \<and>
            filter is_rx_queue_setup (snd (port_init d port pool))
              = [RxQueueSetup port 0 nb_rxd socket pool] \<and>
            filter is_tx_queue_setup (snd (port_init d port pool))
              = [TxQueueSetup port 0 nb_txd socket txconf])"
proof -
  have eq: "port_init d port pool =
           (if \<not> rte_eth_dev_is_valid_port d port then (-1, take 1 calls)
            else if r_info \<noteq> 0 then (r_info, take 2 calls)
            else if r_configure \<noteq> 0 then (r_configure, take 3 calls)
            else if r_adjust \<noteq> 0 then (r_adjust, take 4 calls)
            else if r_rx_queue < 0 then (r_rx_queue, take 6 calls)
            else if r_tx_queue < 0 then (r_tx_queue, take 8 calls)
            else if r_start < 0 then (r_start, take 9 calls)
            else if r_macaddr \<noteq> 0 then (r_macaddr, take 10 calls)
            else if r_promiscuous \<noteq> 0 then (r_promiscuous, calls)
            else (0, calls))"
    unfolding calls_def r_info_def r_configure_def r_adjust_def r_rx_queue_def r_tx_queue_def
      r_start_def r_macaddr_def r_promiscuous_def txconf_def socket_def nb_rxd_def nb_txd_def
      port_conf_def dev_info_def
    by (simp add: port_init_def Let_def case_prod_beta rx_queue_loop_single
          tx_queue_loop_single)
  have ok: "snd (port_init d port pool) = calls" if "fst (port_init d port pool) = 0"
    using that unfolding eq by (simp split: if_splits)
  have "filter is_rx_queue_setup calls = [RxQueueSetup port 0 nb_rxd socket pool]"
    "filter is_tx_queue_setup calls = [TxQueueSetup port 0 nb_txd socket txconf]"
    by (simp_all add: calls_def)
  with eq ok show ?thesis by simp
qed

theorem port_init_steps_witness:
  "port_init ((nic [])\<lparr>rte_eth_dev_adjust_nb_rx_tx_desc := (\<lambda>port rxd txd. (0, 512, 256)),
                        rte_eth_dev_socket_id := (\<lambda>port. -1),
                        rte_eth_dev_start := (\<lambda>port. -19)\<rparr>) 0 (Some 1)
     = (-19, [IsValidPort 0, DevInfoGet 0, DevConfigure 0 1 1 port_conf_default,
              AdjustNbRxTxDesc 0 1024 1024,
              DevSocketId 0, RxQueueSetup 0 0 512 4294967295 (Some 1),
              DevSocketId 0,
              TxQueueSetup 0 0 256 4294967295 \<lparr>txconf_offloads = 0, txconf_other = 0\<rparr>,
              DevStart 0]) \<and>
   fst (port_init (nic []) 0 (Some 1)) = 0 \<and>
   filter is_rx_queue_setup (snd (port_init (nic []) 0 (Some 1)))
     = [RxQueueSetup 0 0 1024 0 (Some 1)] \<and>
   filter is_tx_queue_setup (snd (port_init (nic []) 0 (Some 1)))
     = [TxQueueSetup 0 0 1024 0 \<lparr>txconf_offloads = 0, txconf_other = 0\<rparr>]"
proof -
  have failing: "port_init ((nic [])\<lparr>rte_eth_dev_adjust_nb_rx_tx_desc := (\<lambda>port rxd txd. (0, 512, 256)),
                        rte_eth_dev_socket_id := (\<lambda>port. -1),
                        rte_eth_dev_start := (\<lambda>port. -19)\<rparr>) 0 (Some 1)
     = (-19, [IsValidPort 0, DevInfoGet 0, DevConfigure 0 1 1 port_conf_default,
              AdjustNbRxTxDesc 0 1024 1024,
              DevSocketId 0, RxQueueSetup 0 0 512 4294967295 (Some 1),
              DevSocketId 0,
              TxQueueSetup 0 0 256 4294967295 \<lparr>txconf_offloads = 0, txconf_other = 0\<rparr>,
              DevStart 0])"
    using port_init_steps [of "(nic [])\<lparr>rte_eth_dev_adjust_nb_rx_tx_desc := (\<lambda>port rxd txd. (0, 512, 256)),
                        rte_eth_dev_socket_id := (\<lambda>port. -1),
                        rte_eth_dev_start := (\<lambda>port. -19)\<rparr>" 0 "Some 1"]
    by (simp add: nic_def port_conf_default_def)
  have ok: "fst (port_init (nic []) 0 (Some 1)) = 0"
    using port_init_steps [of "nic []" 0 "Some 1"] by (simp add: nic_def)
  from port_init_steps [of "nic []" 0 "Some 1"] ok
  have "filter is_rx_queue_setup (snd (port_init (nic []) 0 (Some 1)))
     = [RxQueueSetup 0 0 1024 0 (Some 1)]"
    "filter is_tx_queue_setup (snd (port_init (nic []) 0 (Some 1)))
     = [TxQueueSetup 0 0 1024 0 \<lparr>txconf_offloads = 0, txconf_other = 0\<rparr>]"
    by (simp_all add: nic_def port_conf_default_def)
  with failing ok show ?thesis by simp
qed

text \<open>
  Claim C7. Every packet a capture call returns carries the same timestamp: the cycle
  counter divided by its frequency, in whole seconds, kept in the 32 bits of the field;
  and a call that returns packets reads the counter once and the frequency once.
\<close>

theorem capture_shared_timestamp:
  assumes "dpdk_capture_packets d packets max_packets s = Inr (n, Some ps', s')"
  shows "(\<forall>i<nat n.
            pkt_timestamp (ps' ! i) = ucast (rte_get_tsc_cycles d div rte_get_tsc_hz d) \<and>
            unat (pkt_timestamp (ps' ! i)) =
              (unat (rte_get_tsc_cycles d) div unat (rte_get_tsc_hz d)) mod 2 ^ 32) \<and>
         (0 < n \<longrightarrow>
            count_list (drop (length (trace s)) (trace s')) TscCycles = 1 \<and>
            count_list (drop (length (trace s)) (trace s')) TscHz = 1)"
proof (cases "packets = None \<or> max_packets \<le> 0")
  case True
  with assms show ?thesis by (simp add: capture_invalid)
next
  case False
  then obtain ps where ps: "packets = Some ps" and pos: "0 < max_packets" by auto
  define rx where "rx = rte_eth_rx_burst d (word_of_int (g_port_id s)) 0
                          (word_of_int (capture_count s max_packets))"
  note r = capture_Inr [OF assms [unfolded ps] pos refl refl rx_def]
  have conv: "unat (ucast (rte_get_tsc_cycles d div rte_get_tsc_hz d) :: u32) =
          (unat (rte_get_tsc_cycles d) div unat (rte_get_tsc_hz d)) mod 2 ^ 32"
    by (simp add: unsigned_ucast_eq take_bit_eq_mod unat_div)
  have count: "count_list (map PktmbufFree ms) c = 0" if "c = TscCycles \<or> c = TscHz" for ms c
    using that by (induction ms) auto
  from r have stamps: "\<forall>i<nat n.
            pkt_timestamp (ps' ! i) = ucast (rte_get_tsc_cycles d div rte_get_tsc_hz d)"
    by auto
  from r have once: "0 < n \<longrightarrow>
            count_list (drop (length (trace s)) (trace s')) TscCycles = 1 \<and>
            count_list (drop (length (trace s)) (trace s')) TscHz = 1"
    by (auto simp: log_fields count)
  from stamps once conv show ?thesis by simp
qed

theorem capture_shared_timestamp_witness:
  "dpdk_capture_packets (nic [frame 100, frame 200]) (Some [blank, blank, blank]) 3 running_session
     = Inr (2, Some [\<lparr>pkt_data = 100, pkt_length = 60, pkt_port = 0, pkt_timestamp = 7\<rparr>,
                     \<lparr>pkt_data = 200, pkt_length = 60, pkt_port = 0, pkt_timestamp = 7\<rparr>, blank],
            log [RxBurst 0 0 3, TscCycles, TscHz, PktmbufFree (frame 100), PktmbufFree (frame 200)]
              running_session) \<and>
   ucast (rte_get_tsc_cycles (nic [frame 100, frame 200]) div
          rte_get_tsc_hz (nic [frame 100, frame 200])) = (7::u32) \<and>
   (0::int) < 2 \<and>
   count_list (drop (length (trace running_session))
     (trace (log [RxBurst 0 0 3, TscCycles, TscHz, PktmbufFree (frame 100), PktmbufFree (frame 200)]
              running_session))) TscCycles = 1"
proof -
  have run: "dpdk_capture_packets (nic [frame 100, frame 200]) (Some [blank, blank, blank]) 3 running_session
     = Inr (2, Some [\<lparr>pkt_data = 100, pkt_length = 60, pkt_port = 0, pkt_timestamp = 7\<rparr>,
                     \<lparr>pkt_data = 200, pkt_length = 60, pkt_port = 0, pkt_timestamp = 7\<rparr>, blank],
            log [RxBurst 0 0 3, TscCycles, TscHz, PktmbufFree (frame 100), PktmbufFree (frame 200)]
              running_session)"
    by (simp add: capture_unfold [OF _ refl refl refl] nic_fields capture_count_def
          running_session_globals process_loop.simps frame_def blank_def)
  have ts: "ucast (rte_get_tsc_cycles (nic [frame 100, frame 200]) div
              rte_get_tsc_hz (nic [frame 100, frame 200])) = (7::u32)"
    by (simp add: nic_fields)
  from capture_shared_timestamp [OF run] ts run show ?thesis by simp
qed

text \<open>
  Claim C8. For every positive \<open>max_packets\<close>, when the burst receive delivers no
  frame, a capture call returns 0, leaves the caller's array as it was and has made the
  burst receive and nothing else.
\<close>

theorem capture_no_frames:
  assumes "0 < max_packets"
    and "rte_eth_rx_burst d (word_of_int (g_port_id s)) 0
           (word_of_int (capture_count s max_packets)) = []"
  shows "dpdk_capture_packets d (Some ps) max_packets s =
           Inr (0, Some ps,
                log [RxBurst (word_of_int (g_port_id s)) 0
                       (word_of_int (capture_count s max_packets))] s)"
  using assms(2) by (simp add: capture_unfold [OF assms(1) refl refl refl])

theorem capture_no_frames_witness:
  "(0::int) < 16 \<and>
   rte_eth_rx_burst (nic []) (word_of_int (g_port_id running_session)) 0
     (word_of_int (capture_count running_session 16)) = [] \<and>
   dpdk_capture_packets (nic []) (Some (replicate 16 blank)) 16 running_session =
     Inr (0, Some (replicate 16 blank), log [RxBurst 0 0 16] running_session)"
proof -
  have empty: "rte_eth_rx_burst (nic []) (word_of_int (g_port_id running_session)) 0
     (word_of_int (capture_count running_session 16)) = []"
    by (simp add: nic_fields)
  from capture_no_frames [OF _ empty, of "replicate 16 blank"] empty
  show ?thesis by (simp add: running_session_globals capture_count_def)
qed

text \<open>
  Claim C9. With a null \<open>packets\<close> array a capture call returns -1, the value it
  returns for a non-positive \<open>max_packets\<close>; the session comes back as it was, so no
  call of the runtime was made, and there is no array that could have been written.
\<close>

theorem capture_null_array:
  "dpdk_capture_packets d None max_packets s = Inr (-1, None, s) \<and>
   (max_packets' \<le> 0 \<longrightarrow> dpdk_capture_packets d packets max_packets' s = Inr (-1, packets, s))"
  by (simp add: capture_invalid)

theorem capture_null_array_witness:
  "dpdk_capture_packets (nic [frame 100]) None 5 running_session = Inr (-1, None, running_session) \<and>
   (-3::int) \<le> 0 \<and>
   dpdk_capture_packets (nic [frame 100]) (Some [blank]) (-3) running_session
     = Inr (-1, Some [blank], running_session)"
  using capture_null_array [of "nic [frame 100]" 5 running_session "-3" "Some [blank]"]
  by simp

text \<open>
  Claim C10. The batch size is 32 in the static initialiser and within 1 and 32 in
  every session the library's functions lead to, also after each \<open>dpdk_init\<close>. So in
  every such session the count a capture call passes to the burst receive is at most 32
  and fits the 16 bits of the parameter, and with a runtime that delivers no more than
  it is asked for, the call never indexes its 32-slot array \<open>bufs\<close> out of bounds.
\<close>

theorem batch_size_invariant:
  assumes "reachable s"
  shows "g_batch_size initial_session = MAX_PKT_BURST \<and> MAX_PKT_BURST = 32 \<and>
         1 \<le> g_batch_size s \<and> g_batch_size s \<le> MAX_PKT_BURST \<and>
         1 \<le> g_batch_size (snd (dpdk_init dinit port cores batch_size s)) \<and>
         g_batch_size (snd (dpdk_init dinit port cores batch_size s)) \<le> MAX_PKT_BURST \<and>
         (0 < max_packets \<longrightarrow>
            capture_count s max_packets \<le> MAX_PKT_BURST \<and>
            unat (word_of_int (capture_count s max_packets) :: u16) \<le> 32) \<and>
         (rx_burst_contract d \<longrightarrow>
            dpdk_capture_packets d packets max_packets s \<noteq> Inl BufsOutOfBounds)"
proof -
  note inv = reachable_batch_size [OF assms]
  have inv': "1 \<le> g_batch_size (snd (dpdk_init dinit port cores batch_size s)) \<and>
         g_batch_size (snd (dpdk_init dinit port cores batch_size s)) \<le> 32"
    by (rule reachable_batch_size [OF reachable.init [OF assms]])
  have count: "capture_count s max_packets \<le> 32 \<and>
            unat (word_of_int (capture_count s max_packets) :: u16) \<le> 32"
    if "0 < max_packets"
    using capture_count_bounds [OF that, of s] inv by auto
  have safe: "dpdk_capture_packets d packets max_packets s \<noteq> Inl BufsOutOfBounds"
    if contract: "rx_burst_contract d"
  proof (cases "0 < max_packets")
    case False
    then show ?thesis by (simp add: capture_invalid)
  next
    case True
    from burst_within_request [OF contract True, of s "word_of_int (g_port_id s)" 0] inv
    have "length (rte_eth_rx_burst d (word_of_int (g_port_id s)) 0
                    (word_of_int (capture_count s max_packets))) \<le> 32"
      by simp
    then show ?thesis by (rule capture_bufs_in_bounds [OF refl refl refl])
  qed
  from inv inv' count safe show ?thesis
    by (simp add: initial_session_def MAX_PKT_BURST_def)
qed

theorem batch_size_invariant_witness:
  "reachable running_session \<and> g_batch_size running_session = 16 \<and>
   (0::int) < 100 \<and> capture_count running_session 100 = 16 \<and>
   rx_burst_contract (nic (map frame [0..<40])) \<and>
   dpdk_capture_packets (nic (map frame [0..<40])) (Some (replicate 100 blank)) 100 running_session
     \<noteq> Inl BufsOutOfBounds"
proof -
  have r: "reachable running_session"
    unfolding running_session_def by (rule reachable.init [OF reachable.initial])
  from batch_size_invariant [OF r, of _ _ _ _ 100 "nic (map frame [0..<40])"
      "Some (replicate 100 blank)"] nic_contract r
  show ?thesis by (simp add: capture_count_def running_session_globals)
qed

end
